theory Spec2Isabelle
  imports Main
begin

section \<open>Python values and exceptions\<close>

text \<open>
  The values \<^verbatim>\<open>json.loads\<close> produces: \<^verbatim>\<open>None\<close>, booleans, integers, strings, lists and
  dictionaries (floating-point numbers are left out). A dictionary is an association list
  read with \<open>map_of\<close>. Python's \<^verbatim>\<open>None\<close> and JSON's \<^verbatim>\<open>null\<close> are the same value \<open>JNull\<close>.
\<close>

datatype json =
    JNull
  | JBool bool
  | JNum int
  | JStr string
  | JArr "json list"
  | JObj "(string \<times> json) list"

text \<open>
  The exceptions the module can raise. \<open>AttributeError t a\<close> is Python's
  \<^verbatim>\<open>'t' object has no attribute 'a'\<close>; \<open>KeyError k\<close> names the missing key;
  \<open>PyException m\<close> is \<^verbatim>\<open>raise Exception(m)\<close>; \<open>OtherError m\<close> stands for whatever the
  collaborators outside this module raise (file access, JSON parsing, decryption).
\<close>

datatype error =
    TypeError
  | KeyError string
  | IndexError
  | AttributeError string string
  | PyException string
  | OtherError string

fun type_name :: "json \<Rightarrow> string" where
  "type_name JNull = ''NoneType''"
| "type_name (JBool b) = ''bool''"
| "type_name (JNum n) = ''int''"
| "type_name (JStr s) = ''str''"
| "type_name (JArr xs) = ''list''"
| "type_name (JObj kvs) = ''dict''"

text \<open>Truth value of a Python object, as \<^verbatim>\<open>if x:\<close> and \<^verbatim>\<open>x and y\<close> test it.\<close>

fun truthy :: "json \<Rightarrow> bool" where
  "truthy JNull = False"
| "truthy (JBool b) = b"
| "truthy (JNum n) = (n \<noteq> 0)"
| "truthy (JStr s) = (s \<noteq> [])"
| "truthy (JArr xs) = (xs \<noteq> [])"
| "truthy (JObj kvs) = (kvs \<noteq> [])"

text \<open>\<^verbatim>\<open>d.get(k)\<close> and \<^verbatim>\<open>d.get(k, None)\<close>: only a dictionary has the method.\<close>

fun py_get :: "json \<Rightarrow> string \<Rightarrow> error + json" where
  "py_get (JObj kvs) k = (case map_of kvs k of None \<Rightarrow> Inr JNull | Some v \<Rightarrow> Inr v)"
| "py_get v k = Inl (AttributeError (type_name v) ''get'')"

text \<open>\<^verbatim>\<open>d[k]\<close> with a string \<open>k\<close>: a missing key raises, and nothing but a dictionary
  accepts a string subscript.\<close>

fun py_getitem :: "json \<Rightarrow> string \<Rightarrow> error + json" where
  "py_getitem (JObj kvs) k = (case map_of kvs k of None \<Rightarrow> Inl (KeyError k) | Some v \<Rightarrow> Inr v)"
| "py_getitem v k = Inl TypeError"

text \<open>\<^verbatim>\<open>for x in v\<close>: the elements of a list, the keys of a dictionary, the characters of a
  string; the other values are not iterable.\<close>

fun py_iter :: "json \<Rightarrow> error + json list" where
  "py_iter (JArr xs) = Inr xs"
| "py_iter (JObj kvs) = Inr (map JStr (remdups (map fst kvs)))"
| "py_iter (JStr s) = Inr (map (\<lambda>c. JStr [c]) s)"
| "py_iter v = Inl TypeError"

fun py_len :: "json \<Rightarrow> error + nat" where
  "py_len (JArr xs) = Inr (length xs)"
| "py_len (JObj kvs) = Inr (length (remdups (map fst kvs)))"
| "py_len (JStr s) = Inr (length s)"
| "py_len v = Inl TypeError"

text \<open>\<^verbatim>\<open>v[0]\<close>: a dictionary decoded from JSON has string keys only, so the key \<open>0\<close> is
  never there.\<close>

fun py_getitem0 :: "json \<Rightarrow> error + json" where
  "py_getitem0 (JArr []) = Inl IndexError"
| "py_getitem0 (JArr (x # xs)) = Inr x"
| "py_getitem0 (JStr []) = Inl IndexError"
| "py_getitem0 (JStr (c # cs)) = Inr (JStr [c])"
| "py_getitem0 (JObj kvs) = Inl (KeyError ''0'')"
| "py_getitem0 v = Inl TypeError"

text \<open>\<^verbatim>\<open>str.lower()\<close> on the letters A to Z; every other character is kept.\<close>

definition lower_char :: "char \<Rightarrow> char" where
  "lower_char c =
     (case map_of (zip ''ABCDEFGHIJKLMNOPQRSTUVWXYZ'' ''abcdefghijklmnopqrstuvwxyz'') c of
        None \<Rightarrow> c
      | Some d \<Rightarrow> d)"

definition lower :: "string \<Rightarrow> string" where
  "lower s = map lower_char s"

text \<open>\<^verbatim>\<open>functools.reduce(f, xs)\<close> without an initial value: the empty sequence raises
  \<^verbatim>\<open>TypeError\<close>, otherwise the fold starts from the first element.\<close>

fun reduce :: "('a \<Rightarrow> 'a \<Rightarrow> 'a) \<Rightarrow> 'a list \<Rightarrow> error + 'a" where
  "reduce f [] = Inl TypeError"
| "reduce f (x # xs) = Inr (foldl f x xs)"

text \<open>\<^verbatim>\<open>x and y\<close> on booleans: \<open>x\<close> when it is false, else \<open>y\<close>.\<close>

definition py_and :: "bool \<Rightarrow> bool \<Rightarrow> bool" where
  "py_and x y = (if x then y else x)"

text \<open>\<^verbatim>\<open>d[k] = v\<close> on an insertion-ordered dictionary: an existing key keeps its
  position, a new key goes to the end.\<close>

fun dict_set :: "'k \<Rightarrow> 'v \<Rightarrow> ('k \<times> 'v) list \<Rightarrow> ('k \<times> 'v) list" where
  "dict_set k v [] = [(k, v)]"
| "dict_set k v (p # ps) = (if fst p = k then (k, v) # ps else p # dict_set k v ps)"

section \<open>Data model\<close>

text \<open>
  Modelled from the spec: the class \<^verbatim>\<open>EncryptionKey\<close> (module
  \<^verbatim>\<open>onepassword.encryption_key\<close>) is imported by the source and is not part of it.
  The record holds the attributes the spec lists; \<open>key_identifier\<close> (the attribute
  \<^verbatim>\<open>identifier\<close>) and \<open>level\<close> are the two
  that \<^verbatim>\<open>Keychain\<close> reads.
\<close>

record EncryptionKey =
  key_identifier :: string
  level :: string
  key_material :: string
  iterations :: nat
  derived_key :: "string option"

text \<open>What \<^verbatim>\<open>EncryptionKey.decrypt\<close> returns: \<^verbatim>\<open>bytes\<close> or \<^verbatim>\<open>str\<close>.\<close>

datatype plaintext = PBytes string | PStr string

text \<open>
  The document in an item's own file, \<^verbatim>\<open><identifier>.1password\<close>: the entries
  \<^verbatim>\<open>keyID\<close> and \<^verbatim>\<open>securityLevel\<close> are optional (read with \<^verbatim>\<open>.get\<close>: \<open>None\<close> when
  missing), \<^verbatim>\<open>encrypted\<close> is read with a subscript (\<open>None\<close> here is the missing entry,
  which raises \<^verbatim>\<open>KeyError\<close>).
\<close>

record item_file =
  keyID :: "string option"
  securityLevel :: "string option"
  encrypted :: "string option"

text \<open>The three classes of the item hierarchy.\<close>

datatype item_class = KeychainItem | WebFormKeychainItem | PasswordKeychainItem

text \<open>
  An item object. \<open>password\<close>, \<open>username\<close> and \<open>website\<close> hold Python values (\<open>JNull\<close> is
  \<^verbatim>\<open>None\<close>), as does \<open>data\<close> (\<^verbatim>\<open>_data\<close>). The three raw attributes do not exist until
  \<^verbatim>\<open>_read_data_file\<close> assigns them: the outer \<open>None\<close> is "no such attribute"
  (\<^verbatim>\<open>hasattr\<close> is false).
\<close>

record item_obj =
  cls :: item_class
  item_identifier :: string
  name :: string
  password :: json
  username :: json
  website :: json
  path :: string
  type_tag :: string
  data :: json
  key_identifier_attr :: "string option option"
  security_level_attr :: "string option option"
  encrypted_json_attr :: "string option"

record keychain =
  root_path :: string
  encryption_keys :: "(string \<times> EncryptionKey) list"
  items :: "(string \<times> item_obj) list"
  locked :: bool

text \<open>
  The collaborators the module calls and does not define:
  \<^item> \<open>key_unlock\<close> and \<open>key_decrypt\<close> are \<^verbatim>\<open>EncryptionKey.unlock\<close> (which returns a boolean
    and may change the key object) and \<^verbatim>\<open>EncryptionKey.decrypt\<close>;
  \<^item> \<open>decode_utf8\<close> is \<^verbatim>\<open>bytes.decode('utf-8')\<close> and \<open>json_loads\<close> is \<^verbatim>\<open>json.loads\<close>;
  \<^item> \<open>extractOne\<close> is \<^verbatim>\<open>fuzzywuzzy.process.extractOne(query, choices, score_cutoff)\<close>,
    which returns a pair of a choice and its score, or \<^verbatim>\<open>None\<close>;
  \<^item> \<open>read_key_table\<close> opens and parses \<^verbatim>\<open>data/default/encryptionKeys.js\<close> under a root path
    and builds an \<^verbatim>\<open>EncryptionKey\<close> from each entry of its \<^verbatim>\<open>list\<close>;
  \<^item> \<open>read_contents\<close> opens and parses \<^verbatim>\<open>data/default/contents.js\<close> and gives the first
    three columns (identifier, type, name) of each row;
  \<^item> \<open>read_item_file\<close> opens and parses \<^verbatim>\<open>data/default/<identifier>.1password\<close> under a root
    path.
\<close>

record env =
  key_unlock :: "string \<Rightarrow> EncryptionKey \<Rightarrow> bool \<times> EncryptionKey"
  key_decrypt :: "EncryptionKey \<Rightarrow> string \<Rightarrow> error + plaintext"
  decode_utf8 :: "string \<Rightarrow> error + string"
  json_loads :: "string \<Rightarrow> error + json"
  extractOne :: "string \<Rightarrow> string list \<Rightarrow> int \<Rightarrow> (string \<times> int) option"
  read_key_table :: "string \<Rightarrow> error + EncryptionKey list"
  read_contents :: "string \<Rightarrow> error + (string \<times> string \<times> string) list"
  read_item_file :: "string \<Rightarrow> string \<Rightarrow> error + item_file"

section \<open>KeychainItem\<close>

text \<open>\<^verbatim>\<open>KeychainItem.__init__\<close> and \<^verbatim>\<open>KeychainItem.build\<close>.\<close>

definition new_item :: "item_class \<Rightarrow> string \<Rightarrow> string \<Rightarrow> string \<Rightarrow> string \<Rightarrow> item_obj" where
  "new_item c ident nm p ty =
     \<lparr> cls = c, item_identifier = ident, name = nm,
       password = JNull, username = JNull, website = JNull,
       path = p, type_tag = ty, data = JNull,
       key_identifier_attr = None, security_level_attr = None, encrypted_json_attr = None \<rparr>"

definition build :: "string \<times> string \<times> string \<Rightarrow> string \<Rightarrow> item_obj" where
  "build row p =
     (case row of (ident, ty, nm) \<Rightarrow>
        if ty = ''webforms.WebForm'' then new_item WebFormKeychainItem ident nm p ty
        else if ty = ''passwords.Password'' \<or> ty = ''wallet.onlineservices.GenericAccount''
          then new_item PasswordKeychainItem ident nm p ty
        else new_item KeychainItem ident nm p ty)"

text \<open>
  \<^verbatim>\<open>_read_data_file\<close>. The second component is the log of the item files opened so far,
  one entry (the item's identifier) for each call. The three assignments happen in the
  source's order, so a document without \<^verbatim>\<open>encrypted\<close> leaves the first two done.
\<close>

definition read_data_file ::
  "env \<Rightarrow> string list \<Rightarrow> item_obj \<Rightarrow> (error + unit) \<times> string list \<times> item_obj" where
  "read_data_file E log it =
     (let log' = log @ [item_identifier it] in
      case read_item_file E (path it) (item_identifier it) of
        Inl e \<Rightarrow> (Inl e, log', it)
      | Inr item_data \<Rightarrow>
          (let it1 = it\<lparr>key_identifier_attr := Some (keyID item_data)\<rparr>;
               it2 = it1\<lparr>security_level_attr := Some (securityLevel item_data)\<rparr>
           in case encrypted item_data of
                None \<Rightarrow> (Inl (KeyError ''encrypted''), log', it2)
              | Some e \<Rightarrow> (Inr (), log', it2\<lparr>encrypted_json_attr := Some e\<rparr>)))"

text \<open>The raw attributes \<^verbatim>\<open>_key_identifier\<close>, \<^verbatim>\<open>_security_level\<close>, \<^verbatim>\<open>_encrypted_json\<close>.\<close>

datatype raw_attr = Key_identifier | Security_level | Encrypted_json

fun attr_name :: "raw_attr \<Rightarrow> string" where
  "attr_name Key_identifier = ''_key_identifier''"
| "attr_name Security_level = ''_security_level''"
| "attr_name Encrypted_json = ''_encrypted_json''"

text \<open>\<^verbatim>\<open>hasattr\<close> and \<^verbatim>\<open>getattr\<close> in one: \<open>None\<close> when the attribute does not exist.\<close>

fun getattr :: "raw_attr \<Rightarrow> item_obj \<Rightarrow> string option option" where
  "getattr Key_identifier it = key_identifier_attr it"
| "getattr Security_level it = security_level_attr it"
| "getattr Encrypted_json it = map_option Some (encrypted_json_attr it)"

definition lazily_load ::
  "env \<Rightarrow> raw_attr \<Rightarrow> string list \<Rightarrow> item_obj \<Rightarrow> (error + string option) \<times> string list \<times> item_obj" where
  "lazily_load E attr log it =
     (case getattr attr it of
        Some v \<Rightarrow> (Inr v, log, it)
      | None \<Rightarrow>
          (case read_data_file E log it of
             (Inl e, log', it') \<Rightarrow> (Inl e, log', it')
           | (Inr u, log', it') \<Rightarrow>
               (case getattr attr it' of
                  Some v \<Rightarrow> (Inr v, log', it')
                | None \<Rightarrow> (Inl (AttributeError ''KeychainItem'' (attr_name attr)), log', it'))))"

text \<open>\<^verbatim>\<open>caseequal(s1, s2)\<close>, as the truth value its callers test. The second argument is
  always one of the string literals of \<^verbatim>\<open>_find_password\<close> and \<^verbatim>\<open>_find_username\<close>.\<close>

definition caseequal :: "json \<Rightarrow> string \<Rightarrow> error + bool" where
  "caseequal s1 s2 =
     (if \<not> truthy s1 then Inr False
      else if s2 = [] then Inr False
      else (case s1 of
              JStr s \<Rightarrow> Inr (lower s = lower s2)
            | _ \<Rightarrow> Inl (AttributeError (type_name s1) ''lower'')))"

text \<open>The loop of \<^verbatim>\<open>WebFormKeychainItem._find_field\<close>; falling off its end returns
  \<^verbatim>\<open>None\<close>.\<close>

fun scan_fields :: "json list \<Rightarrow> string \<Rightarrow> error + json" where
  "scan_fields [] k = Inr JNull"
| "scan_fields (field # rest) k =
     (case py_get field ''designation'' of
        Inl e \<Rightarrow> Inl e
      | Inr d \<Rightarrow>
          (case caseequal d k of
             Inl e \<Rightarrow> Inl e
           | Inr True \<Rightarrow> py_getitem field ''value''
           | Inr False \<Rightarrow>
               (case py_get field ''name'' of
                  Inl e \<Rightarrow> Inl e
                | Inr n \<Rightarrow>
                    (case caseequal n k of
                       Inl e \<Rightarrow> Inl e
                     | Inr True \<Rightarrow> py_getitem field ''value''
                     | Inr False \<Rightarrow> scan_fields rest k))))"

definition find_field :: "json \<Rightarrow> string \<Rightarrow> error + json" where
  "find_field d k =
     (case py_getitem d ''fields'' of
        Inl e \<Rightarrow> Inl e
      | Inr fs \<Rightarrow> (case py_iter fs of Inl e \<Rightarrow> Inl e | Inr xs \<Rightarrow> scan_fields xs k))"

text \<open>\<^verbatim>\<open>_find_password\<close>, \<^verbatim>\<open>_find_username\<close> and \<^verbatim>\<open>_find_website\<close>, dispatched on the
  class. The base class defines \<^verbatim>\<open>_find_user\<close> and no \<^verbatim>\<open>_find_username\<close>.\<close>

definition find_password :: "item_obj \<Rightarrow> error + json" where
  "find_password it =
     (case cls it of
        KeychainItem \<Rightarrow>
          Inl (PyException (''Cannot extract a password from this type of keychain item (''
                             @ type_tag it @ '')''))
      | WebFormKeychainItem \<Rightarrow> find_field (data it) ''password''
      | PasswordKeychainItem \<Rightarrow> py_get (data it) ''password'')"

definition find_username :: "item_obj \<Rightarrow> error + json" where
  "find_username it =
     (case cls it of
        KeychainItem \<Rightarrow> Inl (AttributeError ''KeychainItem'' ''_find_username'')
      | WebFormKeychainItem \<Rightarrow> find_field (data it) ''username''
      | PasswordKeychainItem \<Rightarrow> py_get (data it) ''username'')"

definition webform_find_website :: "json \<Rightarrow> error + json" where
  "webform_find_website d =
     (case py_get d ''URLs'' of
        Inl e \<Rightarrow> Inl e
      | Inr urls \<Rightarrow>
          if \<not> truthy urls then Inr JNull
          else (case py_len urls of
                  Inl e \<Rightarrow> Inl e
                | Inr n \<Rightarrow>
                    if n > 0
                    then (case py_getitem0 urls of Inl e \<Rightarrow> Inl e | Inr u \<Rightarrow> py_get u ''url'')
                    else Inr JNull))"

definition find_website :: "item_obj \<Rightarrow> error + json" where
  "find_website it =
     (case cls it of
        WebFormKeychainItem \<Rightarrow> webform_find_website (data it)
      | _ \<Rightarrow> Inr JNull)"

section \<open>Keychain\<close>

text \<open>\<^verbatim>\<open>if x:\<close> on an argument that is \<^verbatim>\<open>None\<close> or a string.\<close>

fun truthy_str :: "string option \<Rightarrow> bool" where
  "truthy_str None = False"
| "truthy_str (Some s) = (s \<noteq> [])"

text \<open>\<^verbatim>\<open>Keychain.key\<close>: the lookup by identifier, then the loop over the values in
  insertion order, then the implicit \<^verbatim>\<open>None\<close>.\<close>

definition key :: "keychain \<Rightarrow> string option \<Rightarrow> string option \<Rightarrow> EncryptionKey option" where
  "key kc ident security_level =
     (case (case ident of
              None \<Rightarrow> None
            | Some i \<Rightarrow> if i \<noteq> [] then map_of (encryption_keys kc) i else None) of
        Some k \<Rightarrow> Some k
      | None \<Rightarrow>
          (case security_level of
             None \<Rightarrow> None
           | Some l \<Rightarrow>
               if l \<noteq> [] then find (\<lambda>k. level k = l) (map snd (encryption_keys kc))
               else None))"

text \<open>
  \<^verbatim>\<open>Keychain.unlock\<close>. \<^verbatim>\<open>reduce\<close> drains the lazy \<^verbatim>\<open>map\<close>, so \<^verbatim>\<open>key.unlock\<close> runs on
  every value of the dictionary, in order, each call leaving its key object in its new
  state; on the empty dictionary \<^verbatim>\<open>reduce\<close> raises before anything is assigned.
\<close>

definition unlock :: "env \<Rightarrow> string \<Rightarrow> keychain \<Rightarrow> (error + bool) \<times> keychain" where
  "unlock E pw kc =
     (let unlock_results = map (\<lambda>(i, k). fst (key_unlock E pw k)) (encryption_keys kc);
          keys' = map (\<lambda>(i, k). (i, snd (key_unlock E pw k))) (encryption_keys kc)
      in case reduce py_and unlock_results of
           Inl e \<Rightarrow> (Inl e, kc\<lparr>encryption_keys := keys'\<rparr>)
         | Inr result \<Rightarrow> (Inr result, kc\<lparr>encryption_keys := keys', locked := \<not> result\<rparr>))"

text \<open>
  \<^verbatim>\<open>KeychainItem.decrypt_with\<close>, in two parts. \<open>decrypted_document\<close> is the body up to the
  value of \<^verbatim>\<open>json.loads(decrypted_json)\<close>: the two property reads, the key lookup, the
  read of \<^verbatim>\<open>_encrypted_json\<close>, the call of \<^verbatim>\<open>key.decrypt\<close> (an \<^verbatim>\<open>AttributeError\<close> when
  the key is \<^verbatim>\<open>None\<close>), the decoding of \<^verbatim>\<open>bytes\<close> and the parsing. \<^verbatim>\<open>_encrypted_json\<close> is
  always a string once it exists, so the branch for \<open>Inr None\<close> is never taken.
  \<open>extract_fields\<close> is the three assignments that follow the assignment of \<^verbatim>\<open>_data\<close>.
  The item object is returned in the state the call left it in, also when the call raised.
\<close>

definition decrypted_document ::
  "env \<Rightarrow> keychain \<Rightarrow> string list \<Rightarrow> item_obj \<Rightarrow> (error + json) \<times> string list \<times> item_obj" where
  "decrypted_document E kc log it =
     (case lazily_load E Key_identifier log it of
        (Inl e, log1, it1) \<Rightarrow> (Inl e, log1, it1)
      | (Inr kid, log1, it1) \<Rightarrow>
     (case lazily_load E Security_level log1 it1 of
        (Inl e, log2, it2) \<Rightarrow> (Inl e, log2, it2)
      | (Inr lvl, log2, it2) \<Rightarrow>
     (let k = key kc kid lvl in
      case lazily_load E Encrypted_json log2 it2 of
        (Inl e, log3, it3) \<Rightarrow> (Inl e, log3, it3)
      | (Inr None, log3, it3) \<Rightarrow> (Inl TypeError, log3, it3)
      | (Inr (Some encrypted_json), log3, it3) \<Rightarrow>
     (case k of
        None \<Rightarrow> (Inl (AttributeError ''NoneType'' ''decrypt''), log3, it3)
      | Some k' \<Rightarrow>
     (case key_decrypt E k' encrypted_json of
        Inl e \<Rightarrow> (Inl e, log3, it3)
      | Inr decrypted \<Rightarrow>
     (case (case decrypted of PBytes b \<Rightarrow> decode_utf8 E b | PStr s \<Rightarrow> Inr s) of
        Inl e \<Rightarrow> (Inl e, log3, it3)
      | Inr decrypted_json \<Rightarrow>
     (case json_loads E decrypted_json of
        Inl e \<Rightarrow> (Inl e, log3, it3)
      | Inr d \<Rightarrow> (Inr d, log3, it3))))))))"

definition extract_fields :: "item_obj \<Rightarrow> (error + unit) \<times> item_obj" where
  "extract_fields it4 =
     (case find_password it4 of
        Inl e \<Rightarrow> (Inl e, it4)
      | Inr p \<Rightarrow>
     (let it5 = it4\<lparr>password := p\<rparr> in
      case find_username it5 of
        Inl e \<Rightarrow> (Inl e, it5)
      | Inr u \<Rightarrow>
     (let it6 = it5\<lparr>username := u\<rparr> in
      case find_website it6 of
        Inl e \<Rightarrow> (Inl e, it6)
      | Inr w \<Rightarrow> (Inr (), it6\<lparr>website := w\<rparr>))))"

definition decrypt_with ::
  "env \<Rightarrow> keychain \<Rightarrow> string list \<Rightarrow> item_obj \<Rightarrow> (error + unit) \<times> string list \<times> item_obj" where
  "decrypt_with E kc log it =
     (case decrypted_document E kc log it of
        (Inl e, log3, it3) \<Rightarrow> (Inl e, log3, it3)
      | (Inr d, log3, it3) \<Rightarrow>
          (case extract_fields (it3\<lparr>data := d\<rparr>) of (r, it') \<Rightarrow> (r, log3, it')))"

text \<open>
  \<^verbatim>\<open>Keychain.item\<close>. The matched object lives in the dictionary, so the state
  \<^verbatim>\<open>decrypt_with\<close> leaves it in is stored back under its name, whether or not it raised.
\<close>

definition item ::
  "env \<Rightarrow> string \<Rightarrow> int \<Rightarrow> string list \<Rightarrow> keychain
     \<Rightarrow> (error + item_obj option) \<times> string list \<times> keychain" where
  "item E nm fuzzy_threshold log kc =
     (case extractOne E nm (map fst (items kc)) (fuzzy_threshold - 1) of
        None \<Rightarrow> (Inr None, log, kc)
      | Some (exact_name, score) \<Rightarrow>
          (case map_of (items kc) exact_name of
             None \<Rightarrow> (Inl (KeyError exact_name), log, kc)
           | Some it \<Rightarrow>
               (case decrypt_with E kc log it of
                  (Inl e, log', it') \<Rightarrow>
                    (Inl e, log', kc\<lparr>items := dict_set exact_name it' (items kc)\<rparr>)
                | (Inr u, log', it') \<Rightarrow>
                    (Inr (Some it'), log', kc\<lparr>items := dict_set exact_name it' (items kc)\<rparr>))))"

text \<open>\<^verbatim>\<open>_load_encryption_keys\<close>, \<^verbatim>\<open>_load_item_list\<close> and \<^verbatim>\<open>Keychain.__init__\<close>.\<close>

definition load_encryption_keys :: "EncryptionKey list \<Rightarrow> (string \<times> EncryptionKey) list" where
  "load_encryption_keys ks = foldl (\<lambda>d k. dict_set (key_identifier k) k d) [] ks"

definition load_item_list :: "(string \<times> string \<times> string) list \<Rightarrow> string \<Rightarrow> (string \<times> item_obj) list" where
  "load_item_list rows p = foldl (\<lambda>d row. let it = build row p in dict_set (name it) it d) [] rows"

definition init_keychain :: "env \<Rightarrow> string \<Rightarrow> error + keychain" where
  "init_keychain E p =
     (case read_key_table E p of
        Inl e \<Rightarrow> Inl e
      | Inr ks \<Rightarrow>
          (case read_contents E p of
             Inl e \<Rightarrow> Inl e
           | Inr rows \<Rightarrow>
               Inr \<lparr> root_path = p, encryption_keys = load_encryption_keys ks,
                     items = load_item_list rows p, locked = True \<rparr>))"

section \<open>Notions used in the statements\<close>

text \<open>The value the item's file holds for a raw attribute.\<close>

fun raw_value :: "raw_attr \<Rightarrow> item_file \<Rightarrow> string option" where
  "raw_value Key_identifier f = keyID f"
| "raw_value Security_level f = securityLevel f"
| "raw_value Encrypted_json f = encrypted f"






text \<open>The text \<open>decrypt_with\<close> parses: what \<^verbatim>\<open>key.decrypt\<close> returned, decoded when it is
  \<^verbatim>\<open>bytes\<close>.\<close>

definition decoded_text :: "env \<Rightarrow> plaintext \<Rightarrow> error + string" where
  "decoded_text E pt = (case pt of PBytes b \<Rightarrow> decode_utf8 E b | PStr s \<Rightarrow> Inr s)"

section \<open>A small vault\<close>

text \<open>
  Concrete collaborators and a concrete vault, on which the theorems below are run.
  A key unlocks when the password equals its key material; a payload is the name of a
  document, decryption of an unlocked key is the identity, and \<open>example_loads\<close> maps the
  name to the document; \<open>example_extractOne\<close> accepts exact matches only, with score 100.
  The directory \<^verbatim>\<open>/empty\<close> holds a vault with no key and no item.
\<close>

definition example_unlock :: "string \<Rightarrow> EncryptionKey \<Rightarrow> bool \<times> EncryptionKey" where
  "example_unlock pw k =
     (if key_material k = pw then (True, k\<lparr>derived_key := Some pw\<rparr>)
      else (False, k\<lparr>derived_key := None\<rparr>))"

definition example_decrypt :: "EncryptionKey \<Rightarrow> string \<Rightarrow> error + plaintext" where
  "example_decrypt k c =
     (case derived_key k of
        None \<Rightarrow> Inl (OtherError ''key is locked'')
      | Some s \<Rightarrow> Inr (PStr c))"

definition doc_gmail :: json where
  "doc_gmail =
     JObj [(''fields'',
            JArr [JObj [(''name'', JStr ''remember''), (''value'', JStr ''yes'')],
                  JObj [(''designation'', JStr ''USERNAME''), (''value'', JStr ''alice'')],
                  JObj [(''name'', JStr ''Password''), (''value'', JStr ''s3cret'')],
                  JObj [(''designation'', JStr ''username''), (''value'', JStr ''bob'')]]),
           (''URLs'', JArr [JObj [(''url'', JStr ''https://mail.example'')]])]"

definition doc_broken :: json where
  "doc_broken =
     JObj [(''fields'',
            JArr [JObj [(''designation'', JStr ''password''), (''value'', JStr ''p'')],
                  JObj [(''designation'', JStr ''username'')]])]"

definition doc_note :: json where
  "doc_note = JObj [(''notesPlain'', JStr ''hello'')]"

definition example_loads :: "string \<Rightarrow> error + json" where
  "example_loads s =
     (case map_of [(''gmail.json'', doc_gmail), (''broken.json'', doc_broken),
                   (''note.json'', doc_note)] s of
        None \<Rightarrow> Inl (OtherError ''invalid JSON'')
      | Some d \<Rightarrow> Inr d)"

definition example_extractOne :: "string \<Rightarrow> string list \<Rightarrow> int \<Rightarrow> (string \<times> int) option" where
  "example_extractOne q choices cutoff =
     (if q \<in> set choices \<and> cutoff \<le> 100 then Some (q, 100) else None)"

definition example_keys :: "EncryptionKey list" where
  "example_keys =
     [\<lparr>key_identifier = ''K1'', level = ''SL5'', key_material = ''master'', iterations = 1000,
        derived_key = None\<rparr>,
      \<lparr>key_identifier = ''K2'', level = ''SL3'', key_material = ''master'', iterations = 1000,
        derived_key = None\<rparr>]"

definition example_rows :: "(string \<times> string \<times> string) list" where
  "example_rows =
     [(''ID1'', ''webforms.WebForm'', ''gmail''),
      (''ID2'', ''securenotes.SecureNote'', ''note''),
      (''ID3'', ''passwords.Password'', ''orphan''),
      (''ID4'', ''webforms.WebForm'', ''partial''),
      (''ID5'', ''webforms.WebForm'', ''broken''),
      (''ID6'', ''securenotes.SecureNote'', ''lost'')]"

definition example_files :: "string \<Rightarrow> string \<Rightarrow> error + item_file" where
  "example_files p ident =
     (case map_of
        [(''ID1'', \<lparr>keyID = Some ''K1'', securityLevel = Some ''SL5'', encrypted = Some ''gmail.json''\<rparr>),
         (''ID2'', \<lparr>keyID = None, securityLevel = Some ''SL3'', encrypted = Some ''note.json''\<rparr>),
         (''ID3'', \<lparr>keyID = Some ''K9'', securityLevel = None, encrypted = Some ''note.json''\<rparr>),
         (''ID4'', \<lparr>keyID = Some ''K1'', securityLevel = Some ''SL5'', encrypted = None\<rparr>),
         (''ID5'', \<lparr>keyID = Some ''K1'', securityLevel = Some ''SL5'', encrypted = Some ''broken.json''\<rparr>),
         (''ID6'', \<lparr>keyID = Some ''K9'', securityLevel = None, encrypted = Some ''note.json''\<rparr>),
         (''ID8'', \<lparr>keyID = Some ''K9'', securityLevel = None, encrypted = None\<rparr>)]
        ident of
        None \<Rightarrow> Inl (OtherError ''No such file or directory'')
      | Some f \<Rightarrow> if p = ''/vault'' then Inr f else Inl (OtherError ''No such file or directory''))"

definition example_env :: env where
  "example_env =
     \<lparr> key_unlock = example_unlock, key_decrypt = example_decrypt, decode_utf8 = Inr,
       json_loads = example_loads, extractOne = example_extractOne,
       read_key_table = (\<lambda>p. if p = ''/vault'' then Inr example_keys
                              else if p = ''/empty'' then Inr []
                              else Inl (OtherError ''No such file or directory'')),
       read_contents = (\<lambda>p. if p = ''/vault'' then Inr example_rows
                             else if p = ''/empty'' then Inr []
                             else Inl (OtherError ''No such file or directory'')),
       read_item_file = example_files \<rparr>"

text \<open>The vault as \<^verbatim>\<open>Keychain('/vault')\<close> builds it, and after \<^verbatim>\<open>unlock('master')\<close>.\<close>

definition example_keychain :: keychain where
  "example_keychain =
     \<lparr> root_path = ''/vault'', encryption_keys = load_encryption_keys example_keys,
       items = load_item_list example_rows ''/vault'', locked = True \<rparr>"

definition unlocked_keychain :: keychain where
  "unlocked_keychain = snd (unlock example_env ''master'' example_keychain)"

text \<open>The item objects of the vault, as \<open>build\<close> makes them.\<close>

definition gmail_item :: item_obj where
  "gmail_item = build (''ID1'', ''webforms.WebForm'', ''gmail'') ''/vault''"

definition note_item :: item_obj where
  "note_item = build (''ID2'', ''securenotes.SecureNote'', ''note'') ''/vault''"

definition orphan_item :: item_obj where
  "orphan_item = build (''ID3'', ''passwords.Password'', ''orphan'') ''/vault''"

definition partial_item :: item_obj where
  "partial_item = build (''ID4'', ''webforms.WebForm'', ''partial'') ''/vault''"

definition broken_item :: item_obj where
  "broken_item = build (''ID5'', ''webforms.WebForm'', ''broken'') ''/vault''"

definition lost_item :: item_obj where
  "lost_item = build (''ID6'', ''securenotes.SecureNote'', ''lost'') ''/vault''"

text \<open>An item of the index whose own file is not in the vault.\<close>

definition ghost_item :: item_obj where
  "ghost_item = build (''ID7'', ''webforms.WebForm'', ''ghost'') ''/vault''"

text \<open>An item whose file names a key the vault does not have and holds no payload.\<close>

definition adrift_item :: item_obj where
  "adrift_item = build (''ID8'', ''passwords.Password'', ''adrift'') ''/vault''"



text \<open>A key table with a key whose identifier is the empty string.\<close>

definition blank_key :: EncryptionKey where
  "blank_key = \<lparr>key_identifier = [], level = ''SL5'', key_material = ''master'',
                 iterations = 1000, derived_key = None\<rparr>"

definition other_key :: EncryptionKey where
  "other_key = \<lparr>key_identifier = ''K2'', level = ''SL3'', key_material = ''master'',
                 iterations = 1000, derived_key = None\<rparr>"

definition blank_keychain :: keychain where
  "blank_keychain =
     \<lparr> root_path = ''/vault'', encryption_keys = load_encryption_keys [blank_key, other_key],
       items = [], locked = True \<rparr>"

text \<open>A key table whose first key does not unlock with the password of the second.\<close>

definition corrupt_key :: EncryptionKey where
  "corrupt_key = \<lparr>key_identifier = ''K0'', level = ''SL5'', key_material = ''corrupt'',
                   iterations = 1000, derived_key = None\<rparr>"

definition mixed_keychain :: keychain where
  "mixed_keychain =
     \<lparr> root_path = ''/vault'', encryption_keys = load_encryption_keys [corrupt_key, other_key],
       items = [], locked = True \<rparr>"

definition empty_keychain :: keychain where
  "empty_keychain = \<lparr> root_path = ''/empty'', encryption_keys = [], items = [], locked = True \<rparr>"

section \<open>Unlocking\<close>

lemma foldl_py_and: "foldl py_and r rs = (r \<and> (\<forall>x\<in>set rs. x))"
  by (induction rs arbitrary: r) (auto simp: py_and_def)

lemma reduce_py_and: "rs \<noteq> [] \<Longrightarrow> reduce py_and rs = Inr (\<forall>x\<in>set rs. x)"
  by (cases rs) (auto simp: foldl_py_and)

text \<open>
  Claim C1. On a keychain with at least one key, \<open>unlock\<close> runs \<open>key_unlock\<close> with the
  password on every key of the table (each key is left in the state its own call
  produced, whatever the earlier calls returned), returns the conjunction of all the
  results, and sets \<open>locked\<close> to the negation of that conjunction.
\<close>

theorem unlock_all_keys:
  assumes "encryption_keys kc \<noteq> []"
  shows "unlock E pw kc =
           (Inr (\<forall>k\<in>set (map snd (encryption_keys kc)). fst (key_unlock E pw k)),
            kc\<lparr>encryption_keys :=
                  map (\<lambda>(i, k). (i, snd (key_unlock E pw k))) (encryption_keys kc),
                locked := \<not> (\<forall>k\<in>set (map snd (encryption_keys kc)). fst (key_unlock E pw k))\<rparr>)"
proof -
  let ?rs = "map (\<lambda>(i, k). fst (key_unlock E pw k)) (encryption_keys kc)"
  have ne: "?rs \<noteq> []" using assms by simp
  have all: "(\<forall>x\<in>set ?rs. x) = (\<forall>k\<in>set (map snd (encryption_keys kc)). fst (key_unlock E pw k))"
    by (auto simp: case_prod_beta)
  show ?thesis
    unfolding unlock_def Let_def reduce_py_and [OF ne] all by simp
qed

text \<open>The first key fails, the second is unlocked all the same, and the vault stays
  locked.\<close>

theorem unlock_all_keys_witness:
  "encryption_keys mixed_keychain \<noteq> [] \<and>
   fst (unlock example_env ''master'' mixed_keychain) = Inr False \<and>
   map (\<lambda>(i, k). (i, derived_key k))
       (encryption_keys (snd (unlock example_env ''master'' mixed_keychain)))
     = [(''K0'', None), (''K2'', Some ''master'')] \<and>
   locked (snd (unlock example_env ''master'' mixed_keychain))"
proof -
  have ne: "encryption_keys mixed_keychain \<noteq> []"
    by (simp add: mixed_keychain_def load_encryption_keys_def corrupt_key_def other_key_def)
  show ?thesis
    using unlock_all_keys [OF ne, of example_env "''master''"]
    by (simp add: mixed_keychain_def load_encryption_keys_def corrupt_key_def other_key_def
                  example_env_def example_unlock_def)
qed

text \<open>
  Claim C9. On a keychain whose key table is empty, \<open>unlock\<close> returns no boolean: it
  raises \<^verbatim>\<open>TypeError\<close> and leaves the keychain as it was. That is the keychain
  \<open>init_keychain\<close> builds when the \<^verbatim>\<open>list\<close> of the key-table document has no entry, and
  it is still locked.
\<close>

theorem unlock_empty_table:
  "(encryption_keys kc = [] \<longrightarrow> unlock E pw kc = (Inl TypeError, kc)) \<and>
   (read_key_table E p = Inr [] \<and> init_keychain E p = Inr kc' \<longrightarrow>
      unlock E pw kc' = (Inl TypeError, kc') \<and> locked kc')"
  by (auto simp: unlock_def init_keychain_def load_encryption_keys_def split: sum.splits)

theorem unlock_empty_table_witness:
  "encryption_keys empty_keychain = [] \<and>
   read_key_table example_env ''/empty'' = Inr [] \<and>
   init_keychain example_env ''/empty'' = Inr empty_keychain \<and>
   unlock example_env ''master'' empty_keychain = (Inl TypeError, empty_keychain)"
  using unlock_empty_table [of empty_keychain example_env "''master''" "''/empty''" empty_keychain]
  by (simp add: empty_keychain_def example_env_def init_keychain_def load_encryption_keys_def
                load_item_list_def)

section \<open>Key resolution\<close>

text \<open>
  Claim C2, as stated, fails: an identifier that is provided and present in the key
  mapping is skipped when it is the empty string, because the lookup is guarded by the
  truth value of the argument. With a key of empty identifier (level SL5) and the key
  \<open>K2\<close> (level SL3) in the table, \<open>key\<close> called with the empty identifier and the level
  SL3 returns \<open>K2\<close>, and with the empty identifier alone it returns \<^verbatim>\<open>None\<close>.
\<close>

theorem key_empty_identifier_counterexample:
  "map_of (encryption_keys blank_keychain) [] = Some blank_key \<and>
   key blank_keychain (Some []) (Some ''SL3'') = Some other_key \<and>
   key blank_keychain (Some []) None = None"
  by (simp add: blank_keychain_def load_encryption_keys_def blank_key_def other_key_def key_def)

text \<open>\<open>find\<close> returns the first element that satisfies the predicate.\<close>

lemma find_first:
  "find P xs = Some x \<longleftrightarrow> (\<exists>pre post. xs = pre @ x # post \<and> P x \<and> (\<forall>y\<in>set pre. \<not> P y))"
proof (induction xs)
  case Nil
  show ?case by simp
next
  case (Cons a xs)
  show ?case
  proof (cases "P a")
    case True
    have "a = x \<longleftrightarrow> (\<exists>pre post. a # xs = pre @ x # post \<and> P x \<and> (\<forall>y\<in>set pre. \<not> P y))"
    proof
      assume "a = x"
      then have "a # xs = [] @ x # xs \<and> P x \<and> (\<forall>y\<in>set []. \<not> P y)" using True by simp
      then show "\<exists>pre post. a # xs = pre @ x # post \<and> P x \<and> (\<forall>y\<in>set pre. \<not> P y)" by blast
    next
      assume "\<exists>pre post. a # xs = pre @ x # post \<and> P x \<and> (\<forall>y\<in>set pre. \<not> P y)"
      then obtain pre post where h: "a # xs = pre @ x # post" "\<forall>y\<in>set pre. \<not> P y" by blast
      show "a = x"
      proof (cases pre)
        case Nil
        with h show ?thesis by simp
      next
        case (Cons b bs)
        with h True show ?thesis by auto
      qed
    qed
    with True show ?thesis by simp
  next
    case False
    have "(\<exists>pre post. a # xs = pre @ x # post \<and> P x \<and> (\<forall>y\<in>set pre. \<not> P y)) \<longleftrightarrow>
          (\<exists>pre post. xs = pre @ x # post \<and> P x \<and> (\<forall>y\<in>set pre. \<not> P y))"
    proof
      assume "\<exists>pre post. a # xs = pre @ x # post \<and> P x \<and> (\<forall>y\<in>set pre. \<not> P y)"
      then obtain pre post where
        h: "a # xs = pre @ x # post" "P x" "\<forall>y\<in>set pre. \<not> P y" by blast
      show "\<exists>pre post. xs = pre @ x # post \<and> P x \<and> (\<forall>y\<in>set pre. \<not> P y)"
      proof (cases pre)
        case Nil
        with h False show ?thesis by simp
      next
        case (Cons b bs)
        with h have "xs = bs @ x # post \<and> P x \<and> (\<forall>y\<in>set bs. \<not> P y)" by simp
        then show ?thesis by blast
      qed
    next
      assume "\<exists>pre post. xs = pre @ x # post \<and> P x \<and> (\<forall>y\<in>set pre. \<not> P y)"
      then obtain pre post where
        h: "xs = pre @ x # post" "P x" "\<forall>y\<in>set pre. \<not> P y" by blast
      then have "a # xs = (a # pre) @ x # post \<and> P x \<and> (\<forall>y\<in>set (a # pre). \<not> P y)"
        using False by simp
      then show "\<exists>pre post. a # xs = pre @ x # post \<and> P x \<and> (\<forall>y\<in>set pre. \<not> P y)"
        by blast
    qed
    with False Cons show ?thesis by simp
  qed
qed

text \<open>
  Claim C2, amended. \<open>key\<close> resolves in this order: when the identifier is a non-empty
  string present in the key mapping, the key stored under it is returned, whatever the
  security level; otherwise, when the security level is a non-empty string, the first key
  in insertion order whose level equals it is returned (\<^verbatim>\<open>None\<close> when there is none);
  otherwise \<^verbatim>\<open>None\<close>.
\<close>

theorem key_resolution_order:
  "(\<forall>i k. ident = Some i \<and> i \<noteq> [] \<and> map_of (encryption_keys kc) i = Some k
        \<longrightarrow> key kc ident lvl = Some k) \<and>
   (\<forall>l. \<not> (\<exists>i k. ident = Some i \<and> i \<noteq> [] \<and> map_of (encryption_keys kc) i = Some k)
        \<and> lvl = Some l \<and> l \<noteq> []
        \<longrightarrow> key kc ident lvl = find (\<lambda>k. level k = l) (map snd (encryption_keys kc)) \<and>
            (\<forall>k. key kc ident lvl = Some k \<longleftrightarrow>
                 (\<exists>pre post. map snd (encryption_keys kc) = pre @ k # post \<and> level k = l \<and>
                             (\<forall>y\<in>set pre. level y \<noteq> l)))) \<and>
   (\<not> (\<exists>i k. ident = Some i \<and> i \<noteq> [] \<and> map_of (encryption_keys kc) i = Some k)
        \<and> \<not> truthy_str lvl
        \<longrightarrow> key kc ident lvl = None)"
proof -
  have 1: "\<forall>i k. ident = Some i \<and> i \<noteq> [] \<and> map_of (encryption_keys kc) i = Some k
        \<longrightarrow> key kc ident lvl = Some k"
    by (auto simp: key_def)
  have 2: "key kc ident lvl = find (\<lambda>k. level k = l) (map snd (encryption_keys kc))"
    if "\<not> (\<exists>i k. ident = Some i \<and> i \<noteq> [] \<and> map_of (encryption_keys kc) i = Some k)"
       "lvl = Some l" "l \<noteq> []" for l
    using that by (cases ident) (auto simp: key_def split: option.splits)
  have 3: "key kc ident lvl = None"
    if "\<not> (\<exists>i k. ident = Some i \<and> i \<noteq> [] \<and> map_of (encryption_keys kc) i = Some k)"
       "\<not> truthy_str lvl"
    using that by (cases ident; cases lvl) (auto simp: key_def split: option.splits)
  show ?thesis
    using 1 2 3 by (simp add: find_first)
qed

theorem key_resolution_order_witness:
  "key example_keychain (Some ''K1'') (Some ''SL3'') = Some (example_keys ! 0) \<and>
   key example_keychain (Some ''K7'') (Some ''SL3'') = Some (example_keys ! 1) \<and>
   key example_keychain None (Some ''SL3'') = Some (example_keys ! 1) \<and>
   key example_keychain (Some ''K7'') None = None"
  using key_resolution_order [of "Some ''K1''" example_keychain "Some ''SL3''"]
        key_resolution_order [of "Some ''K7''" example_keychain "Some ''SL3''"]
        key_resolution_order [of None example_keychain "Some ''SL3''"]
        key_resolution_order [of "Some ''K7''" example_keychain None]
  by (simp add: example_keychain_def load_encryption_keys_def example_keys_def)

section \<open>Looking an item up\<close>

lemma map_of_dict_set: "map_of (dict_set k v ps) = (map_of ps)(k \<mapsto> v)"
  by (induction ps) (auto simp: fun_eq_iff)

lemma map_fst_dict_set: "map_of ps k = Some w \<Longrightarrow> map fst (dict_set k v ps) = map fst ps"
  by (induction ps) (auto split: if_splits)

lemma key_locked: "key (kc\<lparr>locked := b\<rparr>) = key kc"
  by (simp add: fun_eq_iff key_def split: option.splits)

lemma decrypted_document_locked:
  "decrypted_document E (kc\<lparr>locked := b\<rparr>) = decrypted_document E kc"
  unfolding fun_eq_iff decrypted_document_def key_locked by simp

lemma decrypt_with_locked: "decrypt_with E (kc\<lparr>locked := b\<rparr>) = decrypt_with E kc"
  unfolding fun_eq_iff decrypt_with_def decrypted_document_locked by simp

text \<open>The vault, evaluated: the matcher's answers and the stored objects.\<close>

lemma match_gmail_unlocked:
  "extractOne example_env ''gmail'' (map fst (items unlocked_keychain)) 99 = Some (''gmail'', 100)"
  by code_simp

lemma stored_gmail_unlocked: "map_of (items unlocked_keychain) ''gmail'' = Some gmail_item"
  by code_simp

lemma match_gmail_locked:
  "extractOne example_env ''gmail'' (map fst (items example_keychain)) 99 = Some (''gmail'', 100)"
  by code_simp

lemma stored_gmail_locked: "map_of (items example_keychain) ''gmail'' = Some gmail_item"
  by code_simp

lemma decrypt_gmail_unlocked:
  "fst (decrypt_with example_env unlocked_keychain [] gmail_item) = Inr () \<and>
   username (snd (snd (decrypt_with example_env unlocked_keychain [] gmail_item))) = JStr ''alice''"
  by code_simp

lemma decrypt_gmail_locked:
  "decrypt_with example_env example_keychain [] gmail_item =
     (Inl (OtherError ''key is locked''), [''ID1''],
      gmail_item\<lparr>key_identifier_attr := Some (Some ''K1''),
                 security_level_attr := Some (Some ''SL5''),
                 encrypted_json_attr := Some ''gmail.json''\<rparr>)"
  by code_simp

text \<open>
  Claim C3, as stated, fails where the decrypt operation raises: the matcher returns the
  candidate \<open>note\<close>, a stored item of the generic class, and \<open>item\<close> returns no item: the
  exception of \<^verbatim>\<open>_find_password\<close> leaves it.
\<close>

theorem item_generic_counterexample:
  "extractOne example_env ''note'' (map fst (items unlocked_keychain)) (100 - 1) = Some (''note'', 100) \<and>
   map_of (items unlocked_keychain) ''note'' = Some note_item \<and>
   fst (item example_env ''note'' 100 [] unlocked_keychain) =
     Inl (PyException
           ''Cannot extract a password from this type of keychain item (securenotes.SecureNote)'')"
  by code_simp

text \<open>
  Claim C3, amended. \<open>item\<close> calls the matcher on the name, the names of the stored items
  and the minimum score \<open>fuzzy_threshold - 1\<close>, and returns \<^verbatim>\<open>None\<close> exactly when the
  matcher returns no candidate. When it returns a candidate, \<open>item\<close> runs \<open>decrypt_with\<close>
  on the item stored under the matched name; if that completes, \<open>item\<close> returns that
  item, in the state the decryption left it in and as the keychain now stores it under
  that name; if it raises, the exception leaves \<open>item\<close> and no item is returned.
\<close>

theorem item_resolution:
  "(fst (item E nm thr log kc) = Inr None
      \<longleftrightarrow> extractOne E nm (map fst (items kc)) (thr - 1) = None) \<and>
   (\<forall>n s it. extractOne E nm (map fst (items kc)) (thr - 1) = Some (n, s)
        \<and> map_of (items kc) n = Some it \<longrightarrow>
      (case decrypt_with E kc log it of
         (Inl e, log', it') \<Rightarrow> fst (item E nm thr log kc) = Inl e
       | (Inr u, log', it') \<Rightarrow>
           fst (item E nm thr log kc) = Inr (Some it') \<and>
           map_of (items (snd (snd (item E nm thr log kc)))) n = Some it'))"
  by (auto simp: item_def map_of_dict_set split: option.splits sum.splits prod.splits)

theorem item_resolution_witness:
  "extractOne example_env ''gmail'' (map fst (items unlocked_keychain)) (100 - 1) = Some (''gmail'', 100) \<and>
   map_of (items unlocked_keychain) ''gmail'' = Some gmail_item \<and>
   fst (decrypt_with example_env unlocked_keychain [] gmail_item) = Inr () \<and>
   fst (item example_env ''gmail'' 100 [] unlocked_keychain)
     = Inr (Some (snd (snd (decrypt_with example_env unlocked_keychain [] gmail_item)))) \<and>
   username (snd (snd (decrypt_with example_env unlocked_keychain [] gmail_item))) = JStr ''alice''"
proof -
  obtain r l i where d: "decrypt_with example_env unlocked_keychain [] gmail_item = (r, l, i)"
    by (cases "decrypt_with example_env unlocked_keychain [] gmail_item") auto
  with decrypt_gmail_unlocked have r: "r = Inr ()" by simp
  show ?thesis
    using item_resolution [of example_env "''gmail''" 100 "[]" unlocked_keychain]
          match_gmail_unlocked stored_gmail_unlocked decrypt_gmail_unlocked d r
    by auto
qed

text \<open>
  Claim C4. When the matcher resolves the name to a stored item, \<open>item\<close> runs
  \<open>decrypt_with\<close> on it whatever \<open>locked\<close> is: the outcome is that of \<open>decrypt_with\<close>, which
  does not read \<open>locked\<close> either, and \<open>locked\<close> is left as it was.
\<close>

theorem item_decrypts_while_locked:
  assumes "extractOne E nm (map fst (items kc)) (thr - 1) = Some (n, s)"
    and "map_of (items kc) n = Some it"
  shows "item E nm thr log (kc\<lparr>locked := b\<rparr>) =
           (case decrypt_with E kc log it of
              (r, log', it') \<Rightarrow>
                (case r of Inl e \<Rightarrow> Inl e | Inr u \<Rightarrow> Inr (Some it'),
                 log',
                 kc\<lparr>locked := b, items := dict_set n it' (items kc)\<rparr>))"
  using assms
  by (simp add: item_def decrypt_with_locked split: prod.splits sum.splits)

text \<open>On the locked vault the item's file is read and the decryption is attempted: it is
  the key that refuses.\<close>

theorem item_decrypts_while_locked_witness:
  "extractOne example_env ''gmail'' (map fst (items example_keychain)) (100 - 1) = Some (''gmail'', 100) \<and>
   map_of (items example_keychain) ''gmail'' = Some gmail_item \<and>
   locked example_keychain \<and>
   fst (item example_env ''gmail'' 100 [] example_keychain) = Inl (OtherError ''key is locked'') \<and>
   fst (snd (item example_env ''gmail'' 100 [] example_keychain)) = [''ID1'']"
proof -
  have m: "extractOne example_env ''gmail'' (map fst (items example_keychain)) (100 - 1)
             = Some (''gmail'', 100)"
    using match_gmail_locked by simp
  have l: "example_keychain\<lparr>locked := True\<rparr> = example_keychain" "locked example_keychain"
    by (simp_all add: example_keychain_def)
  show ?thesis
    using item_decrypts_while_locked [OF m stored_gmail_locked, of "[]" True]
          m stored_gmail_locked decrypt_gmail_locked l
    by simp
qed

section \<open>Decrypting an item\<close>

text \<open>Loading the raw fields changes nothing else of the item, and neither does the part of
  \<open>decrypt_with\<close> that comes before the assignment of \<^verbatim>\<open>_data\<close>.\<close>

lemma read_data_file_keeps:
  "read_data_file E log it = (r, log', it') \<Longrightarrow>
     cls it' = cls it \<and> password it' = password it \<and> username it' = username it \<and>
     website it' = website it \<and> data it' = data it \<and> type_tag it' = type_tag it \<and>
     name it' = name it \<and> item_identifier it' = item_identifier it \<and> path it' = path it"
  by (auto simp: read_data_file_def Let_def split: sum.splits option.splits)

lemma lazily_load_keeps:
  "lazily_load E a log it = (r, log', it') \<Longrightarrow>
     cls it' = cls it \<and> password it' = password it \<and> username it' = username it \<and>
     website it' = website it \<and> data it' = data it \<and> type_tag it' = type_tag it \<and>
     name it' = name it \<and> item_identifier it' = item_identifier it \<and> path it' = path it"
  by (auto simp: lazily_load_def split: option.splits prod.splits sum.splits
           dest!: read_data_file_keeps)

lemma decrypted_document_keeps:
  assumes "decrypted_document E kc log it = (r, log', it')"
  shows "cls it' = cls it \<and> password it' = password it \<and> username it' = username it \<and>
     website it' = website it \<and> data it' = data it \<and> type_tag it' = type_tag it \<and>
     name it' = name it \<and> item_identifier it' = item_identifier it \<and> path it' = path it"
proof -
  obtain r1 l1 i1 where a: "lazily_load E Key_identifier log it = (r1, l1, i1)"
    by (cases "lazily_load E Key_identifier log it") auto
  obtain r2 l2 i2 where b: "lazily_load E Security_level l1 i1 = (r2, l2, i2)"
    by (cases "lazily_load E Security_level l1 i1") auto
  obtain r3 l3 i3 where c: "lazily_load E Encrypted_json l2 i2 = (r3, l3, i3)"
    by (cases "lazily_load E Encrypted_json l2 i2") auto
  have "it' = i1 \<or> it' = i2 \<or> it' = i3"
    using assms a b c
    by (auto simp: decrypted_document_def Let_def split: sum.splits option.splits plaintext.splits)
  then show ?thesis
    using lazily_load_keeps [OF a] lazily_load_keeps [OF b] lazily_load_keeps [OF c] by auto
qed

lemma find_password_generic:
  "cls it = KeychainItem \<Longrightarrow>
     find_password it =
       Inl (PyException (''Cannot extract a password from this type of keychain item (''
                          @ type_tag it @ '')''))"
  by (simp add: find_password_def)

lemma build_generic:
  "ty \<noteq> ''webforms.WebForm'' \<Longrightarrow> ty \<noteq> ''passwords.Password'' \<Longrightarrow>
   ty \<noteq> ''wallet.onlineservices.GenericAccount'' \<Longrightarrow>
     build (ident, ty, nm) p = new_item KeychainItem ident nm p ty"
  by (simp add: build_def)

text \<open>
  The part of \<open>decrypt_with\<close> before the extraction, step by step: each step that fails ends
  the call with its own error, and the key that is \<^verbatim>\<open>None\<close> fails at \<^verbatim>\<open>key.decrypt\<close>. An
  error of that part is the error of \<open>decrypt_with\<close>, and on an item of the base class a
  parsed document always leads to the exception of \<^verbatim>\<open>_find_password\<close>.
\<close>

lemma lazily_load_encrypted_result:
  "lazily_load E Encrypted_json log it = (Inr v, l, i) \<Longrightarrow> \<exists>enc. v = Some enc"
  by (auto simp: lazily_load_def split: option.splits prod.splits sum.splits) metis+

lemma decrypted_document_steps:
  "(\<forall>e l1 i1. lazily_load E Key_identifier log it = (Inl e, l1, i1) \<longrightarrow>
       decrypted_document E kc log it = (Inl e, l1, i1)) \<and>
   (\<forall>kid l1 i1. lazily_load E Key_identifier log it = (Inr kid, l1, i1) \<longrightarrow>
      (\<forall>e l2 i2. lazily_load E Security_level l1 i1 = (Inl e, l2, i2) \<longrightarrow>
          decrypted_document E kc log it = (Inl e, l2, i2)) \<and>
      (\<forall>lvl l2 i2. lazily_load E Security_level l1 i1 = (Inr lvl, l2, i2) \<longrightarrow>
         (\<forall>e l3 i3. lazily_load E Encrypted_json l2 i2 = (Inl e, l3, i3) \<longrightarrow>
             decrypted_document E kc log it = (Inl e, l3, i3)) \<and>
         (\<forall>enc l3 i3. lazily_load E Encrypted_json l2 i2 = (Inr (Some enc), l3, i3) \<longrightarrow>
            (key kc kid lvl = None \<longrightarrow>
               decrypted_document E kc log it
                 = (Inl (AttributeError ''NoneType'' ''decrypt''), l3, i3)) \<and>
            (\<forall>k. key kc kid lvl = Some k \<longrightarrow>
               (\<forall>e. key_decrypt E k enc = Inl e \<longrightarrow>
                   decrypted_document E kc log it = (Inl e, l3, i3)) \<and>
               (\<forall>pt. key_decrypt E k enc = Inr pt \<longrightarrow>
                  (\<forall>e. decoded_text E pt = Inl e \<longrightarrow>
                      decrypted_document E kc log it = (Inl e, l3, i3)) \<and>
                  (\<forall>txt. decoded_text E pt = Inr txt \<longrightarrow>
                     (\<forall>e. json_loads E txt = Inl e \<longrightarrow>
                         decrypted_document E kc log it = (Inl e, l3, i3)) \<and>
                     (\<forall>d. json_loads E txt = Inr d \<longrightarrow>
                         decrypted_document E kc log it = (Inr d, l3, i3))))))))"
  by (simp add: decrypted_document_def decoded_text_def)

lemma decrypt_with_error:
  "decrypted_document E kc log it = (Inl e, l, i) \<Longrightarrow> decrypt_with E kc log it = (Inl e, l, i)"
  by (simp add: decrypt_with_def)

lemma decrypt_with_generic_document:
  assumes "cls it = KeychainItem" and "decrypted_document E kc log it = (Inr d, l, i)"
  shows "decrypt_with E kc log it =
           (Inl (PyException (''Cannot extract a password from this type of keychain item (''
                               @ type_tag it @ '')'')), l, i\<lparr>data := d\<rparr>)"
proof -
  note keep = decrypted_document_keeps [OF assms(2)]
  have "cls (i\<lparr>data := d\<rparr>) = KeychainItem" "type_tag (i\<lparr>data := d\<rparr>) = type_tag it"
    using keep assms(1) by simp_all
  with find_password_generic [of "i\<lparr>data := d\<rparr>"]
  show ?thesis using assms(2) by (simp add: decrypt_with_def extract_fields_def)
qed

text \<open>
  Claim C5, as stated, fails on an item whose file has no \<^verbatim>\<open>encrypted\<close> entry. The first
  \<open>decrypt_with\<close> raises \<^verbatim>\<open>KeyError\<close> while loading and leaves the key identifier and the
  security level set. On the second call both are read, \<open>key\<close> returns \<^verbatim>\<open>None\<close> for them,
  and the call fails while loading the payload, with \<^verbatim>\<open>KeyError\<close> again and not with the
  error of the missing key.
\<close>

theorem decrypt_without_key_payload_counterexample:
  "decrypt_with example_env unlocked_keychain [] adrift_item =
     (Inl (KeyError ''encrypted''), [''ID8''],
      adrift_item\<lparr>key_identifier_attr := Some (Some ''K9''), security_level_attr := Some None\<rparr>) \<and>
   lazily_load example_env Key_identifier [''ID8'']
     (adrift_item\<lparr>key_identifier_attr := Some (Some ''K9''), security_level_attr := Some None\<rparr>) =
     (Inr (Some ''K9''), [''ID8''],
      adrift_item\<lparr>key_identifier_attr := Some (Some ''K9''), security_level_attr := Some None\<rparr>) \<and>
   lazily_load example_env Security_level [''ID8'']
     (adrift_item\<lparr>key_identifier_attr := Some (Some ''K9''), security_level_attr := Some None\<rparr>) =
     (Inr None, [''ID8''],
      adrift_item\<lparr>key_identifier_attr := Some (Some ''K9''), security_level_attr := Some None\<rparr>) \<and>
   key unlocked_keychain (Some ''K9'') None = None \<and>
   decrypt_with example_env unlocked_keychain [''ID8'']
     (adrift_item\<lparr>key_identifier_attr := Some (Some ''K9''), security_level_attr := Some None\<rparr>) =
     (Inl (KeyError ''encrypted''), [''ID8'', ''ID8''],
      adrift_item\<lparr>key_identifier_attr := Some (Some ''K9''), security_level_attr := Some None\<rparr>)"
  by code_simp

text \<open>
  Claim C5, amended. When the key identifier and the security level of an item load and
  \<open>key\<close> finds no key for them, \<open>decrypt_with\<close> fails: with the \<^verbatim>\<open>AttributeError\<close> that
  \<^verbatim>\<open>key.decrypt\<close> raises on \<^verbatim>\<open>None\<close> when the encrypted payload loads too (the source has no
  exception class of its own for the missing key), and with the error of the payload's
  load when it does not. In both cases the decrypted fields of the item are left as they
  were, and when the call comes from \<open>item\<close>, that error is what \<open>item\<close> raises, and the
  key table, the lock state, the names of the items and every other item are unchanged.
\<close>

theorem decrypt_without_key:
  assumes "lazily_load E Key_identifier log it = (Inr kid, log1, it1)"
    and "lazily_load E Security_level log1 it1 = (Inr lvl, log2, it2)"
    and "key kc kid lvl = None"
  shows "(\<forall>enc log3 it3.
            lazily_load E Encrypted_json log2 it2 = (Inr (Some enc), log3, it3) \<longrightarrow>
            decrypt_with E kc log it = (Inl (AttributeError ''NoneType'' ''decrypt''), log3, it3)) \<and>
         (\<forall>e log3 it3.
            lazily_load E Encrypted_json log2 it2 = (Inl e, log3, it3) \<longrightarrow>
            decrypt_with E kc log it = (Inl e, log3, it3)) \<and>
         (\<exists>e log' it'.
            decrypt_with E kc log it = (Inl e, log', it') \<and>
            password it' = password it \<and> username it' = username it \<and>
            website it' = website it \<and> data it' = data it \<and>
            (\<forall>nm thr n s.
               extractOne E nm (map fst (items kc)) (thr - 1) = Some (n, s) \<and>
               map_of (items kc) n = Some it \<longrightarrow>
               (case item E nm thr log kc of
                  (r, l', kc') \<Rightarrow>
                    r = Inl e \<and> l' = log' \<and>
                    encryption_keys kc' = encryption_keys kc \<and>
                    locked kc' = locked kc \<and>
                    map fst (items kc') = map fst (items kc) \<and>
                    map_of (items kc') n = Some it' \<and>
                    (\<forall>m. m \<noteq> n \<longrightarrow> map_of (items kc') m = map_of (items kc) m))))"
  (is "?A \<and> ?B \<and> ?X")
proof -
  note s = decrypted_document_steps [of E log it kc, THEN conjunct2, rule_format, OF assms(1),
                                     THEN conjunct2, rule_format, OF assms(2)]
  have a: ?A
    using s [THEN conjunct2, rule_format, THEN conjunct1, rule_format, OF _ assms(3)]
          decrypt_with_error [of E kc log it]
    by blast
  have b: ?B
    using s [THEN conjunct1, rule_format] decrypt_with_error [of E kc log it]
    by blast
  obtain r3 l3 i3 where e: "lazily_load E Encrypted_json log2 it2 = (r3, l3, i3)"
    by (cases "lazily_load E Encrypted_json log2 it2") auto
  have k: "password i3 = password it \<and> username i3 = username it \<and>
           website i3 = website it \<and> data i3 = data it"
    using lazily_load_keeps [OF assms(1)] lazily_load_keeps [OF assms(2)]
          lazily_load_keeps [OF e] by simp
  have "\<exists>err. decrypt_with E kc log it = (Inl err, l3, i3)"
  proof (cases r3)
    case (Inl err)
    with b e show ?thesis by blast
  next
    case (Inr v)
    with lazily_load_encrypted_result [of E log2 it2 v l3 i3] e
    obtain enc where "v = Some enc" by auto
    with a e Inr show ?thesis by blast
  qed
  then obtain err where d: "decrypt_with E kc log it = (Inl err, l3, i3)" ..
  have "decrypt_with E kc log it = (Inl err, l3, i3) \<and>
            password i3 = password it \<and> username i3 = username it \<and>
            website i3 = website it \<and> data i3 = data it \<and>
            (\<forall>nm thr n s.
               extractOne E nm (map fst (items kc)) (thr - 1) = Some (n, s) \<and>
               map_of (items kc) n = Some it \<longrightarrow>
               (case item E nm thr log kc of
                  (r, l', kc') \<Rightarrow>
                    r = Inl err \<and> l' = l3 \<and>
                    encryption_keys kc' = encryption_keys kc \<and>
                    locked kc' = locked kc \<and>
                    map fst (items kc') = map fst (items kc) \<and>
                    map_of (items kc') n = Some i3 \<and>
                    (\<forall>m. m \<noteq> n \<longrightarrow> map_of (items kc') m = map_of (items kc) m)))"
    using d k by (auto simp: item_def map_of_dict_set map_fst_dict_set)
  then have x: ?X by blast
  from conjI [OF a conjI [OF b x]] show ?thesis .
qed

text \<open>The item \<open>orphan\<close> names the key \<open>K9\<close>, which the vault does not have, and no level.\<close>

lemma orphan_key_identifier:
  "lazily_load example_env Key_identifier [] orphan_item =
     (Inr (Some ''K9''), [''ID3''],
      orphan_item\<lparr>key_identifier_attr := Some (Some ''K9''), security_level_attr := Some None,
                  encrypted_json_attr := Some ''note.json''\<rparr>)"
  by code_simp

lemma orphan_security_level:
  "lazily_load example_env Security_level [''ID3'']
     (orphan_item\<lparr>key_identifier_attr := Some (Some ''K9''), security_level_attr := Some None,
                  encrypted_json_attr := Some ''note.json''\<rparr>) =
     (Inr None, [''ID3''],
      orphan_item\<lparr>key_identifier_attr := Some (Some ''K9''), security_level_attr := Some None,
                  encrypted_json_attr := Some ''note.json''\<rparr>)"
  by code_simp

lemma orphan_encrypted_json:
  "lazily_load example_env Encrypted_json [''ID3'']
     (orphan_item\<lparr>key_identifier_attr := Some (Some ''K9''), security_level_attr := Some None,
                  encrypted_json_attr := Some ''note.json''\<rparr>) =
     (Inr (Some ''note.json''), [''ID3''],
      orphan_item\<lparr>key_identifier_attr := Some (Some ''K9''), security_level_attr := Some None,
                  encrypted_json_attr := Some ''note.json''\<rparr>)"
  by code_simp

lemma orphan_no_key: "key unlocked_keychain (Some ''K9'') None = None"
  by code_simp

lemma match_orphan:
  "extractOne example_env ''orphan'' (map fst (items unlocked_keychain)) (100 - 1) = Some (''orphan'', 100)"
  by code_simp

lemma stored_orphan: "map_of (items unlocked_keychain) ''orphan'' = Some orphan_item"
  by code_simp

theorem decrypt_without_key_witness:
  "key unlocked_keychain (Some ''K9'') None = None \<and>
   decrypt_with example_env unlocked_keychain [] orphan_item =
     (Inl (AttributeError ''NoneType'' ''decrypt''), [''ID3''],
      orphan_item\<lparr>key_identifier_attr := Some (Some ''K9''), security_level_attr := Some None,
                  encrypted_json_attr := Some ''note.json''\<rparr>) \<and>
   fst (item example_env ''orphan'' 100 [] unlocked_keychain)
     = Inl (AttributeError ''NoneType'' ''decrypt'') \<and>
   encryption_keys (snd (snd (item example_env ''orphan'' 100 [] unlocked_keychain)))
     = encryption_keys unlocked_keychain \<and>
   map_of (items (snd (snd (item example_env ''orphan'' 100 [] unlocked_keychain)))) ''gmail''
     = Some gmail_item"
proof -
  note t = decrypt_without_key [OF orphan_key_identifier orphan_security_level orphan_no_key]
  have d: "decrypt_with example_env unlocked_keychain [] orphan_item =
     (Inl (AttributeError ''NoneType'' ''decrypt''), [''ID3''],
      orphan_item\<lparr>key_identifier_attr := Some (Some ''K9''), security_level_attr := Some None,
                  encrypted_json_attr := Some ''note.json''\<rparr>)"
    using t [THEN conjunct1, rule_format, OF orphan_encrypted_json] .
  obtain r l kc' where it: "item example_env ''orphan'' 100 [] unlocked_keychain = (r, l, kc')"
    by (cases "item example_env ''orphan'' 100 [] unlocked_keychain") auto
  from t [THEN conjunct2, THEN conjunct2] obtain e log' it' where
    x: "decrypt_with example_env unlocked_keychain [] orphan_item = (Inl e, log', it')"
    and y: "\<forall>nm thr n s.
               extractOne example_env nm (map fst (items unlocked_keychain)) (thr - 1) = Some (n, s) \<and>
               map_of (items unlocked_keychain) n = Some orphan_item \<longrightarrow>
               (case item example_env nm thr [] unlocked_keychain of
                  (r, l', kc') \<Rightarrow>
                    r = Inl e \<and> l' = log' \<and>
                    encryption_keys kc' = encryption_keys unlocked_keychain \<and>
                    locked kc' = locked unlocked_keychain \<and>
                    map fst (items kc') = map fst (items unlocked_keychain) \<and>
                    map_of (items kc') n = Some it' \<and>
                    (\<forall>m. m \<noteq> n \<longrightarrow> map_of (items kc') m = map_of (items unlocked_keychain) m))"
    by blast
  have e: "e = AttributeError ''NoneType'' ''decrypt''" using x d by simp
  have q: "r = Inl e \<and> encryption_keys kc' = encryption_keys unlocked_keychain \<and>
           (\<forall>m. m \<noteq> ''orphan'' \<longrightarrow> map_of (items kc') m = map_of (items unlocked_keychain) m)"
    using y [rule_format, of "''orphan''" 100 "''orphan''" 100,
             OF conjI [OF match_orphan stored_orphan]]
    unfolding it by simp
  have g: "map_of (items kc') ''gmail'' = map_of (items unlocked_keychain) ''gmail''"
    using q by simp
  show ?thesis
    unfolding it using d q e g orphan_no_key stored_gmail_unlocked by simp
qed

text \<open>The secure note of the vault, step by step.\<close>

lemma note_document:
  "decrypted_document example_env unlocked_keychain [] note_item =
     (Inr doc_note, [''ID2''],
      note_item\<lparr>key_identifier_attr := Some None, security_level_attr := Some (Some ''SL3''),
                encrypted_json_attr := Some ''note.json''\<rparr>)"
  by code_simp

lemma note_key_identifier:
  "lazily_load example_env Key_identifier [] note_item =
     (Inr None, [''ID2''],
      note_item\<lparr>key_identifier_attr := Some None, security_level_attr := Some (Some ''SL3''),
                encrypted_json_attr := Some ''note.json''\<rparr>)"
  by code_simp

lemma note_security_level:
  "lazily_load example_env Security_level [''ID2'']
     (note_item\<lparr>key_identifier_attr := Some None, security_level_attr := Some (Some ''SL3''),
                encrypted_json_attr := Some ''note.json''\<rparr>) =
     (Inr (Some ''SL3''), [''ID2''],
      note_item\<lparr>key_identifier_attr := Some None, security_level_attr := Some (Some ''SL3''),
                encrypted_json_attr := Some ''note.json''\<rparr>)"
  by code_simp

lemma note_encrypted_json:
  "lazily_load example_env Encrypted_json [''ID2'']
     (note_item\<lparr>key_identifier_attr := Some None, security_level_attr := Some (Some ''SL3''),
                encrypted_json_attr := Some ''note.json''\<rparr>) =
     (Inr (Some ''note.json''), [''ID2''],
      note_item\<lparr>key_identifier_attr := Some None, security_level_attr := Some (Some ''SL3''),
                encrypted_json_attr := Some ''note.json''\<rparr>)"
  by code_simp

lemma note_key:
  "key unlocked_keychain None (Some ''SL3'') = Some (other_key\<lparr>derived_key := Some ''master''\<rparr>)"
  by code_simp

lemma note_plaintext:
  "key_decrypt example_env (other_key\<lparr>derived_key := Some ''master''\<rparr>) ''note.json''
     = Inr (PStr ''note.json'')"
  by code_simp

lemma note_text: "decoded_text example_env (PStr ''note.json'') = Inr ''note.json''"
  by code_simp

lemma note_parsed: "json_loads example_env ''note.json'' = Inr doc_note"
  by code_simp

lemma note_item_generic:
  "cls note_item = KeychainItem" "type_tag note_item = ''securenotes.SecureNote''"
  "password note_item = JNull" "username note_item = JNull" "website note_item = JNull"
  by (simp_all add: note_item_def build_def new_item_def)

text \<open>
  Claim C7, as stated, fails for a generic item whose key cannot be resolved: the call
  fails before it reaches the extraction, with the error of the missing key and not with
  the one of \<^verbatim>\<open>_find_password\<close>.
\<close>

theorem generic_item_other_error_counterexample:
  "cls lost_item = KeychainItem \<and>
   type_tag lost_item = ''securenotes.SecureNote'' \<and>
   fst (decrypt_with example_env unlocked_keychain [] lost_item)
     = Inl (AttributeError ''NoneType'' ''decrypt'')"
  by code_simp

text \<open>
  Claim C7, amended. A type tag other than the web-form and the password and login tags
  makes \<open>build\<close> return an item of the base class, with \<open>password\<close>, \<open>username\<close> and
  \<open>website\<close> set to \<^verbatim>\<open>None\<close>. On such an item \<^verbatim>\<open>_find_password\<close> always raises the
  exception "Cannot extract a password from this type of keychain item", and
  \<open>decrypt_with\<close> always fails and leaves \<open>password\<close>, \<open>username\<close> and \<open>website\<close> as they
  were. Its error is that exception exactly when every step before the extraction
  succeeds; otherwise it is the error of the first step that fails: the load of the key
  identifier, of the security level or of the payload, the \<^verbatim>\<open>AttributeError\<close> of
  \<^verbatim>\<open>key.decrypt\<close> when no key is found, the error of \<^verbatim>\<open>key.decrypt\<close>, of the decoding or of
  \<^verbatim>\<open>json.loads\<close>.
\<close>

theorem generic_item_never_decrypts:
  "(ty \<noteq> ''webforms.WebForm'' \<and> ty \<noteq> ''passwords.Password'' \<and>
    ty \<noteq> ''wallet.onlineservices.GenericAccount'' \<longrightarrow>
      cls (build (ident, ty, nm) p) = KeychainItem \<and>
      type_tag (build (ident, ty, nm) p) = ty \<and>
      password (build (ident, ty, nm) p) = JNull \<and>
      username (build (ident, ty, nm) p) = JNull \<and>
      website (build (ident, ty, nm) p) = JNull) \<and>
   (cls it = KeychainItem \<longrightarrow>
      find_password it =
        Inl (PyException (''Cannot extract a password from this type of keychain item (''
                           @ type_tag it @ '')'')) \<and>
      (\<exists>e log' it'.
         decrypt_with E kc log it = (Inl e, log', it') \<and>
         password it' = password it \<and> username it' = username it \<and>
         website it' = website it) \<and>
      (\<forall>e l1 i1. lazily_load E Key_identifier log it = (Inl e, l1, i1) \<longrightarrow>
          decrypt_with E kc log it = (Inl e, l1, i1)) \<and>
      (\<forall>kid l1 i1. lazily_load E Key_identifier log it = (Inr kid, l1, i1) \<longrightarrow>
         (\<forall>e l2 i2. lazily_load E Security_level l1 i1 = (Inl e, l2, i2) \<longrightarrow>
             decrypt_with E kc log it = (Inl e, l2, i2)) \<and>
         (\<forall>lvl l2 i2. lazily_load E Security_level l1 i1 = (Inr lvl, l2, i2) \<longrightarrow>
            (\<forall>e l3 i3. lazily_load E Encrypted_json l2 i2 = (Inl e, l3, i3) \<longrightarrow>
                decrypt_with E kc log it = (Inl e, l3, i3)) \<and>
            (\<forall>enc l3 i3. lazily_load E Encrypted_json l2 i2 = (Inr (Some enc), l3, i3) \<longrightarrow>
               (key kc kid lvl = None \<longrightarrow>
                  decrypt_with E kc log it
                    = (Inl (AttributeError ''NoneType'' ''decrypt''), l3, i3)) \<and>
               (\<forall>k. key kc kid lvl = Some k \<longrightarrow>
                  (\<forall>e. key_decrypt E k enc = Inl e \<longrightarrow>
                      decrypt_with E kc log it = (Inl e, l3, i3)) \<and>
                  (\<forall>pt. key_decrypt E k enc = Inr pt \<longrightarrow>
                     (\<forall>e. decoded_text E pt = Inl e \<longrightarrow>
                         decrypt_with E kc log it = (Inl e, l3, i3)) \<and>
                     (\<forall>txt. decoded_text E pt = Inr txt \<longrightarrow>
                        (\<forall>e. json_loads E txt = Inl e \<longrightarrow>
                            decrypt_with E kc log it = (Inl e, l3, i3)) \<and>
                        (\<forall>d. json_loads E txt = Inr d \<longrightarrow>
                            decrypt_with E kc log it
                              = (Inl (PyException
                                       (''Cannot extract a password from this type of keychain item (''
                                        @ type_tag it @ '')'')),
                                 l3, i3\<lparr>data := d\<rparr>)))))))))"
  (is "?B \<and> (?C \<longrightarrow> ?F \<and> ?G \<and> ?S)")
proof -
  have b: ?B
    by (simp add: build_generic new_item_def)
  have f: ?F if c: ?C
    using c by (rule find_password_generic)
  have g: ?G if c: ?C
  proof -
    obtain r l i where dd: "decrypted_document E kc log it = (r, l, i)"
      by (cases "decrypted_document E kc log it") auto
    note keep = decrypted_document_keeps [OF dd]
    show ?thesis
    proof (cases r)
      case (Inl e)
      then show ?thesis using dd keep decrypt_with_error [of E kc log it e l i] by simp
    next
      case (Inr d)
      then show ?thesis
        using dd keep decrypt_with_generic_document [OF c, of E kc log d l i] by simp
    qed
  qed
  have st: ?S if c: ?C
    using decrypted_document_steps [of E log it kc] decrypt_with_error [of E kc log it]
          decrypt_with_generic_document [OF c, of E kc log]
    by simp
  show ?thesis
  proof (rule conjI [OF b], rule impI)
    assume c: ?C
    from conjI [OF f [OF c] conjI [OF g [OF c] st [OF c]]]
    show "?F \<and> ?G \<and> ?S" .
  qed
qed

theorem generic_item_never_decrypts_witness:
  "cls note_item = KeychainItem \<and>
   key unlocked_keychain None (Some ''SL3'') = Some (other_key\<lparr>derived_key := Some ''master''\<rparr>) \<and>
   json_loads example_env ''note.json'' = Inr doc_note \<and>
   decrypt_with example_env unlocked_keychain [] note_item =
     (Inl (PyException
            ''Cannot extract a password from this type of keychain item (securenotes.SecureNote)''),
      [''ID2''],
      note_item\<lparr>key_identifier_attr := Some None, security_level_attr := Some (Some ''SL3''),
                encrypted_json_attr := Some ''note.json'', data := doc_note\<rparr>) \<and>
   password note_item = JNull \<and> username note_item = JNull \<and> website note_item = JNull"
proof -
  note t = generic_item_never_decrypts
             [where it = note_item and E = example_env and kc = unlocked_keychain and log = "[]",
              THEN conjunct2, rule_format, OF note_item_generic(1)]
  note u = t [THEN conjunct2, THEN conjunct2, THEN conjunct2, rule_format, OF note_key_identifier,
              THEN conjunct2, rule_format, OF note_security_level,
              THEN conjunct2, rule_format, OF note_encrypted_json,
              THEN conjunct2, rule_format, OF note_key,
              THEN conjunct2, rule_format, OF note_plaintext,
              THEN conjunct2, rule_format, OF note_text,
              THEN conjunct2, rule_format, OF note_parsed]
  show ?thesis
    using u note_item_generic note_key note_parsed by simp
qed

lemma find_username_password_upd: "find_username (it\<lparr>password := p\<rparr>) = find_username it"
  by (simp add: find_username_def split: item_class.splits)

lemma find_website_upd:
  "find_website (it\<lparr>password := p, username := u\<rparr>) = find_website it"
  by (simp add: find_website_def split: item_class.splits)

text \<open>
  Claim C10, as stated, fails when the extraction that raises is not the first one. The
  document of the item \<open>broken\<close> has a password entry with a value and a username entry
  without one: \<^verbatim>\<open>_find_username\<close> raises \<^verbatim>\<open>KeyError\<close> after \<open>password\<close> has been
  assigned, so \<open>password\<close> does not keep its prior value.
\<close>

theorem decrypt_with_password_overwritten_counterexample:
  "password broken_item = JNull \<and>
   fst (decrypted_document example_env unlocked_keychain [] broken_item) = Inr doc_broken \<and>
   fst (decrypt_with example_env unlocked_keychain [] broken_item) = Inl (KeyError ''value'') \<and>
   data (snd (snd (decrypt_with example_env unlocked_keychain [] broken_item))) = doc_broken \<and>
   password (snd (snd (decrypt_with example_env unlocked_keychain [] broken_item))) = JStr ''p''"
  by code_simp

text \<open>
  Claim C10, amended. \<open>decrypt_with\<close> is not atomic on error: once the payload is decrypted
  and parsed, the document is stored in \<open>data\<close> before any field is extracted, whatever
  happens next. When \<^verbatim>\<open>_find_password\<close> raises (as it always does for an item of the base
  class), \<open>password\<close>, \<open>username\<close> and \<open>website\<close> keep their prior values; when
  \<^verbatim>\<open>_find_username\<close> raises, \<open>password\<close> has been overwritten already and the other two
  keep their prior values; when \<^verbatim>\<open>_find_website\<close> raises, only \<open>website\<close> keeps its
  prior value.
\<close>

theorem decrypt_with_partial_update:
  assumes "decrypted_document E kc log it = (Inr d, log', it')"
  shows "data (snd (snd (decrypt_with E kc log it))) = d \<and>
         (\<forall>e. find_password (it'\<lparr>data := d\<rparr>) = Inl e \<longrightarrow>
            decrypt_with E kc log it = (Inl e, log', it'\<lparr>data := d\<rparr>) \<and>
            password (it'\<lparr>data := d\<rparr>) = password it \<and>
            username (it'\<lparr>data := d\<rparr>) = username it \<and>
            website (it'\<lparr>data := d\<rparr>) = website it) \<and>
         (\<forall>p e. find_password (it'\<lparr>data := d\<rparr>) = Inr p \<and>
                find_username (it'\<lparr>data := d\<rparr>) = Inl e \<longrightarrow>
            decrypt_with E kc log it = (Inl e, log', it'\<lparr>data := d, password := p\<rparr>) \<and>
            username (it'\<lparr>data := d, password := p\<rparr>) = username it \<and>
            website (it'\<lparr>data := d, password := p\<rparr>) = website it) \<and>
         (\<forall>p u e. find_password (it'\<lparr>data := d\<rparr>) = Inr p \<and>
                  find_username (it'\<lparr>data := d\<rparr>) = Inr u \<and>
                  find_website (it'\<lparr>data := d\<rparr>) = Inl e \<longrightarrow>
            decrypt_with E kc log it
              = (Inl e, log', it'\<lparr>data := d, password := p, username := u\<rparr>) \<and>
            website (it'\<lparr>data := d, password := p, username := u\<rparr>) = website it) \<and>
         (cls it = KeychainItem \<longrightarrow> (\<exists>e. find_password (it'\<lparr>data := d\<rparr>) = Inl e))"
proof -
  note keep = decrypted_document_keeps [OF assms]
  have 1: "data (snd (snd (decrypt_with E kc log it))) = d"
    using assms
    by (simp add: decrypt_with_def extract_fields_def Let_def split: sum.splits)
  have 2: "decrypt_with E kc log it = (Inl e, log', it'\<lparr>data := d\<rparr>)"
    if "find_password (it'\<lparr>data := d\<rparr>) = Inl e" for e
    using assms that by (simp add: decrypt_with_def extract_fields_def)
  have 3: "decrypt_with E kc log it = (Inl e, log', it'\<lparr>data := d, password := p\<rparr>)"
    if "find_password (it'\<lparr>data := d\<rparr>) = Inr p" "find_username (it'\<lparr>data := d\<rparr>) = Inl e"
    for p e
    using assms that
    by (simp add: decrypt_with_def extract_fields_def find_username_password_upd)
  have 4: "decrypt_with E kc log it = (Inl e, log', it'\<lparr>data := d, password := p, username := u\<rparr>)"
    if "find_password (it'\<lparr>data := d\<rparr>) = Inr p" "find_username (it'\<lparr>data := d\<rparr>) = Inr u"
       "find_website (it'\<lparr>data := d\<rparr>) = Inl e"
    for p u e
    using assms that
    by (simp add: decrypt_with_def extract_fields_def find_username_password_upd find_website_upd)
  have 5: "\<exists>e. find_password (it'\<lparr>data := d\<rparr>) = Inl e" if "cls it = KeychainItem"
    using that keep by (simp add: find_password_def)
  show ?thesis using 1 2 3 4 5 keep by simp
qed

theorem decrypt_with_partial_update_witness:
  "decrypted_document example_env unlocked_keychain [] note_item =
     (Inr doc_note, [''ID2''],
      note_item\<lparr>key_identifier_attr := Some None, security_level_attr := Some (Some ''SL3''),
                encrypted_json_attr := Some ''note.json''\<rparr>) \<and>
   cls note_item = KeychainItem \<and> data note_item = JNull \<and>
   decrypt_with example_env unlocked_keychain [] note_item =
     (Inl (PyException
            ''Cannot extract a password from this type of keychain item (securenotes.SecureNote)''),
      [''ID2''],
      note_item\<lparr>key_identifier_attr := Some None, security_level_attr := Some (Some ''SL3''),
                encrypted_json_attr := Some ''note.json'', data := doc_note\<rparr>) \<and>
   password note_item = JNull \<and> username note_item = JNull \<and> website note_item = JNull"
proof -
  have c: "cls note_item = KeychainItem" "data note_item = JNull" "password note_item = JNull"
    "username note_item = JNull" "website note_item = JNull"
    "type_tag note_item = ''securenotes.SecureNote''"
    by (simp_all add: note_item_def build_def new_item_def)
  show ?thesis
    using decrypt_with_partial_update [OF note_document] note_document c
    by (auto simp: find_password_def)
qed

section \<open>Lazy loading of the raw fields\<close>

text \<open>
  Claim C8, as stated, fails when the item's file has no \<^verbatim>\<open>encrypted\<close> entry: the first
  access assigns the key identifier and the security level and then raises, so the load
  is not all-or-nothing, and a later access to the payload opens the file again. It
  fails as well when the file cannot be opened: the first access sets nothing and the
  next one opens the file again.
\<close>

theorem raw_fields_partial_load_counterexample:
  "key_identifier_attr partial_item = None \<and> security_level_attr partial_item = None \<and>
   encrypted_json_attr partial_item = None \<and>
   lazily_load example_env Key_identifier [] partial_item =
     (Inl (KeyError ''encrypted''), [''ID4''],
      partial_item\<lparr>key_identifier_attr := Some (Some ''K1''),
                   security_level_attr := Some (Some ''SL5'')\<rparr>) \<and>
   lazily_load example_env Encrypted_json [''ID4'']
     (partial_item\<lparr>key_identifier_attr := Some (Some ''K1''),
                   security_level_attr := Some (Some ''SL5'')\<rparr>) =
     (Inl (KeyError ''encrypted''), [''ID4'', ''ID4''],
      partial_item\<lparr>key_identifier_attr := Some (Some ''K1''),
                   security_level_attr := Some (Some ''SL5'')\<rparr>) \<and>
   lazily_load example_env Key_identifier [] ghost_item =
     (Inl (OtherError ''No such file or directory''), [''ID7''], ghost_item) \<and>
   lazily_load example_env Key_identifier [''ID7''] ghost_item =
     (Inl (OtherError ''No such file or directory''), [''ID7'', ''ID7''], ghost_item)"
  by code_simp

text \<open>
  Claim C8, amended. When the item's file can be read and has an \<^verbatim>\<open>encrypted\<close> entry,
  the first access to any raw field of an item that has none of them opens the file once
  and sets all three; after that no access to any of them opens a file, whatever the
  files then hold, and each returns the value loaded the first time.
\<close>

theorem raw_fields_loaded_once:
  assumes "key_identifier_attr it = None" and "security_level_attr it = None"
    and "encrypted_json_attr it = None"
    and "read_item_file E (path it) (item_identifier it) = Inr f"
    and "encrypted f = Some e"
  shows "lazily_load E a log it =
           (Inr (raw_value a f), log @ [item_identifier it],
            it\<lparr>key_identifier_attr := Some (keyID f),
               security_level_attr := Some (securityLevel f),
               encrypted_json_attr := Some e\<rparr>) \<and>
         (\<forall>E' b log'.
            lazily_load E' b log'
              (it\<lparr>key_identifier_attr := Some (keyID f),
                 security_level_attr := Some (securityLevel f),
                 encrypted_json_attr := Some e\<rparr>)
            = (Inr (raw_value b f), log',
               it\<lparr>key_identifier_attr := Some (keyID f),
                  security_level_attr := Some (securityLevel f),
                  encrypted_json_attr := Some e\<rparr>))"
proof -
  have first: "lazily_load E a log it =
           (Inr (raw_value a f), log @ [item_identifier it],
            it\<lparr>key_identifier_attr := Some (keyID f),
               security_level_attr := Some (securityLevel f),
               encrypted_json_attr := Some e\<rparr>)"
    using assms by (cases a) (simp_all add: lazily_load_def read_data_file_def)
  have later: "lazily_load E' b log'
              (it\<lparr>key_identifier_attr := Some (keyID f),
                 security_level_attr := Some (securityLevel f),
                 encrypted_json_attr := Some e\<rparr>)
            = (Inr (raw_value b f), log',
               it\<lparr>key_identifier_attr := Some (keyID f),
                  security_level_attr := Some (securityLevel f),
                  encrypted_json_attr := Some e\<rparr>)" for E' b log'
    using assms(5) by (cases b) (simp_all add: lazily_load_def)
  show ?thesis using first later by blast
qed

theorem raw_fields_loaded_once_witness:
  "key_identifier_attr gmail_item = None \<and> security_level_attr gmail_item = None \<and>
   encrypted_json_attr gmail_item = None \<and>
   read_item_file example_env (path gmail_item) (item_identifier gmail_item) =
     Inr \<lparr>keyID = Some ''K1'', securityLevel = Some ''SL5'', encrypted = Some ''gmail.json''\<rparr> \<and>
   lazily_load example_env Security_level [] gmail_item =
     (Inr (Some ''SL5''), [''ID1''],
      gmail_item\<lparr>key_identifier_attr := Some (Some ''K1''),
                 security_level_attr := Some (Some ''SL5''),
                 encrypted_json_attr := Some ''gmail.json''\<rparr>) \<and>
   lazily_load example_env Encrypted_json [''ID1'']
      (gmail_item\<lparr>key_identifier_attr := Some (Some ''K1''),
                 security_level_attr := Some (Some ''SL5''),
                 encrypted_json_attr := Some ''gmail.json''\<rparr>) =
     (Inr (Some ''gmail.json''), [''ID1''],
      gmail_item\<lparr>key_identifier_attr := Some (Some ''K1''),
                 security_level_attr := Some (Some ''SL5''),
                 encrypted_json_attr := Some ''gmail.json''\<rparr>)"
proof -
  have a: "key_identifier_attr gmail_item = None" "security_level_attr gmail_item = None"
    "encrypted_json_attr gmail_item = None"
    by (simp_all add: gmail_item_def build_def new_item_def)
  have i: "item_identifier gmail_item = ''ID1''"
    by (simp add: gmail_item_def build_def new_item_def)
  have f: "read_item_file example_env (path gmail_item) (item_identifier gmail_item) =
     Inr \<lparr>keyID = Some ''K1'', securityLevel = Some ''SL5'', encrypted = Some ''gmail.json''\<rparr>"
    by code_simp
  have e: "encrypted \<lparr>keyID = Some ''K1'', securityLevel = Some ''SL5'',
                      encrypted = Some ''gmail.json''\<rparr> = Some ''gmail.json''"
    by simp
  show ?thesis
    using raw_fields_loaded_once [OF a f e, of Security_level "[]"] a f i
    by simp
qed

section \<open>Field extraction of web-form items\<close>










end
